theory Spec2Isabelle
  imports Main "HOL-Library.Sublist"
begin

section \<open>Values exchanged with the backend\<close>

text \<open>
  \<^verbatim>\<open>app.py\<close> keeps everything it receives from the backend exactly as
  \<^verbatim>\<open>response.json()\<close> returns it, without any conversion, so the session state
  holds decoded JSON values. A decoded object is a Python dict, written here as an association
  list in insertion order with \<open>map_of\<close> as its lookup. \<open>JNull\<close> is Python's \<^verbatim>\<open>None\<close>.
  JSON numbers are the integers; a float takes the same branches as an integer in every
  operation of this program (it is falsy exactly when zero, has no keys, no \<^verbatim>\<open>get\<close>, no
  \<^verbatim>\<open>append\<close> and is not iterable) and is not modelled separately.
  Strings are lists of characters.
\<close>

datatype json =
    JNull
  | JBool bool
  | JInt int
  | JStr string
  | JArr "json list"
  | JObj "(string \<times> json) list"

text \<open>The exceptions that the operations of this program can raise.\<close>

datatype exn =
    ConnectionError
  | JSONDecodeError
  | KeyError string
  | TypeError
  | AttributeError

text \<open>Python's truth value of a decoded JSON value, as tested by \<^verbatim>\<open>if v:\<close> and \<^verbatim>\<open>v or w\<close>.\<close>

fun truthy :: "json \<Rightarrow> bool" where
  "truthy JNull = False"
| "truthy (JBool b) = b"
| "truthy (JInt n) = (n \<noteq> 0)"
| "truthy (JStr s) = (s \<noteq> [])"
| "truthy (JArr xs) = (xs \<noteq> [])"
| "truthy (JObj kvs) = (kvs \<noteq> [])"

text \<open>\<^verbatim>\<open>d.get(k)\<close>: only a dict has \<^verbatim>\<open>get\<close>; a missing key gives \<^verbatim>\<open>None\<close>.\<close>

fun dict_get :: "json \<Rightarrow> string \<Rightarrow> exn + json" where
  "dict_get (JObj kvs) k = Inr (case map_of kvs k of None \<Rightarrow> JNull | Some v \<Rightarrow> v)"
| "dict_get _ k = Inl AttributeError"

text \<open>
  \<^verbatim>\<open>d[k]\<close> with a string key \<open>k\<close>: a dict raises \<^verbatim>\<open>KeyError\<close> on a missing key;
  a string or a list accepts integer indices only, and the other values are not subscriptable.
\<close>

fun subscript :: "json \<Rightarrow> string \<Rightarrow> exn + json" where
  "subscript (JObj kvs) k = (case map_of kvs k of None \<Rightarrow> Inl (KeyError k) | Some v \<Rightarrow> Inr v)"
| "subscript _ k = Inl TypeError"

text \<open>
  \<^verbatim>\<open>"def " in c\<close>: the substring test on a string, membership on a list, key membership on
  a dict, and a \<^verbatim>\<open>TypeError\<close> on a value that is not a container.
\<close>

fun contains_def :: "json \<Rightarrow> exn + bool" where
  "contains_def (JStr s) = Inr (sublist ''def '' s)"
| "contains_def (JArr xs) = Inr (JStr ''def '' \<in> set xs)"
| "contains_def (JObj kvs) = Inr (''def '' \<in> set (map fst kvs))"
| "contains_def _ = Inl TypeError"

text \<open>
  \<^verbatim>\<open>reversed(v)\<close>: a list backwards, a string as its characters backwards, a dict as its
  keys backwards (Python 3.8 and later); anything else is not reversible.
\<close>

fun py_reversed :: "json \<Rightarrow> exn + json list" where
  "py_reversed (JArr xs) = Inr (rev xs)"
| "py_reversed (JStr s) = Inr (map (\<lambda>c. JStr [c]) (rev s))"
| "py_reversed (JObj kvs) = Inr (map (\<lambda>kv. JStr (fst kv)) (rev kvs))"
| "py_reversed _ = Inl TypeError"

text \<open>\<^verbatim>\<open>xs.append(m)\<close>: only a list has \<^verbatim>\<open>append\<close>.\<close>

fun py_append :: "json \<Rightarrow> json \<Rightarrow> exn + json" where
  "py_append (JArr xs) m = Inr (JArr (xs @ [m]))"
| "py_append _ m = Inl AttributeError"

text \<open>
  What one call of \<^verbatim>\<open>requests.get\<close> or \<^verbatim>\<open>requests.post\<close> gives: an exception (no
  connection, timeout), or a response with its status code and its body; the body is \<open>None\<close>
  when it is not JSON, so that \<^verbatim>\<open>response.json()\<close> raises.
\<close>

datatype http_result =
    Raised exn
  | Response int "json option"

fun response_json :: "json option \<Rightarrow> exn + json" where
  "response_json None = Inl JSONDecodeError"
| "response_json (Some data) = Inr data"

text \<open>What the page shows: the calls of \<^verbatim>\<open>st.write\<close>, \<^verbatim>\<open>st.success\<close>, \<^verbatim>\<open>st.code\<close>,
  \<^verbatim>\<open>st.warning\<close> and \<^verbatim>\<open>st.error\<close>; \<open>St_error_exn p e\<close> is \<^verbatim>\<open>st.error(f"{p}{e}")\<close>
  for a caught exception \<open>e\<close>.\<close>

datatype ui =
    St_write string
  | St_success string
  | St_code json
  | St_warning string
  | St_error string
  | St_error_exn string exn

section \<open>Session state\<close>

text \<open>The five keys of \<^verbatim>\<open>st.session_state\<close> that \<^verbatim>\<open>init_session\<close> establishes.\<close>

record session_state =
  session_id :: json
  messages :: json
  history :: json
  active_session :: json
  generated_dag :: json

text \<open>
  Before \<^verbatim>\<open>init_session\<close> each key may be missing. \<open>uuid\<close> is the value of
  \<^verbatim>\<open>str(uuid.uuid4())\<close>, a random draw that the model takes as an input.
\<close>

record raw_state =
  raw_session_id :: "json option"
  raw_messages :: "json option"
  raw_history :: "json option"
  raw_active_session :: "json option"
  raw_generated_dag :: "json option"

definition init_session :: "string \<Rightarrow> raw_state \<Rightarrow> session_state" where
  "init_session uuid r =
     \<lparr> session_id = (case raw_session_id r of None \<Rightarrow> JStr uuid | Some v \<Rightarrow> v),
       messages = (case raw_messages r of None \<Rightarrow> JArr [] | Some v \<Rightarrow> v),
       history = (case raw_history r of None \<Rightarrow> JArr [] | Some v \<Rightarrow> v),
       active_session = (case raw_active_session r of None \<Rightarrow> JNull | Some v \<Rightarrow> v),
       generated_dag = (case raw_generated_dag r of None \<Rightarrow> JNull | Some v \<Rightarrow> v) \<rparr>"

definition established :: "session_state \<Rightarrow> raw_state" where
  "established s =
     \<lparr> raw_session_id = Some (session_id s),
       raw_messages = Some (messages s),
       raw_history = Some (history s),
       raw_active_session = Some (active_session s),
       raw_generated_dag = Some (generated_dag s) \<rparr>"

definition fresh_state :: raw_state where
  "fresh_state =
     \<lparr> raw_session_id = None, raw_messages = None, raw_history = None,
       raw_active_session = None, raw_generated_dag = None \<rparr>"

text \<open>The state of a new session, after the first \<^verbatim>\<open>init_session\<close>.\<close>

definition new_session :: session_state where
  "new_session = init_session ''3f2b8c1e-5d4a-4f6b-9c7d-1a2b3c4d5e6f'' fresh_state"

section \<open>Loading conversations\<close>

text \<open>
  \<^verbatim>\<open>fetch_all_conversations\<close>. The body of the \<^verbatim>\<open>try\<close> returns the state it has
  reached together with the exception, if one was raised; the \<^verbatim>\<open>except Exception\<close> handler
  turns the exception into a notice.
\<close>

definition fetch_all_body :: "http_result \<Rightarrow> session_state \<Rightarrow> session_state \<times> (exn + ui list)" where
  "fetch_all_body resp s =
     (case resp of
        Raised e \<Rightarrow> (s, Inl e)
      | Response code body \<Rightarrow>
          if code = 200 then
            (case response_json body of
               Inl e \<Rightarrow> (s, Inl e)
             | Inr data \<Rightarrow>
                 (case dict_get data ''success'' of
                    Inl e \<Rightarrow> (s, Inl e)
                  | Inr ok \<Rightarrow>
                      if truthy ok then
                        (case subscript data ''conversations'' of
                           Inl e \<Rightarrow> (s, Inl e)
                         | Inr convs \<Rightarrow> (s\<lparr>history := convs\<rparr>, Inr []))
                      else (s, Inr [St_warning ''No conversation history found.''])))
          else (s, Inr [St_error ''Failed to fetch conversation history.'']))"

definition fetch_all_conversations :: "http_result \<Rightarrow> session_state \<Rightarrow> session_state \<times> ui list" where
  "fetch_all_conversations resp s =
     (case fetch_all_body resp s of
        (s', Inl e) \<Rightarrow> (s', [St_error_exn ''Error fetching history: '' e])
      | (s', Inr shown) \<Rightarrow> (s', shown))"

text \<open>
  The loop of \<^verbatim>\<open>load_conversation\<close> over \<^verbatim>\<open>reversed(data["messages"])\<close>, given the
  messages in the order the loop visits them. \<open>Inr (Some c)\<close>: the loop assigned \<open>c\<close> to
  \<^verbatim>\<open>generated_dag\<close> and left by \<^verbatim>\<open>break\<close>; \<open>Inr None\<close>: it ran to the end without
  assigning; \<open>Inl e\<close>: a subscript or the \<^verbatim>\<open>in\<close> test raised \<open>e\<close>, before any assignment.
  The \<^verbatim>\<open>and\<close> reads \<^verbatim>\<open>msg["content"]\<close> only when the type is \<^verbatim>\<open>"system"\<close>.
\<close>

fun scan_dag :: "json list \<Rightarrow> exn + json option" where
  "scan_dag [] = Inr None"
| "scan_dag (msg # rest) =
     (case subscript msg ''message_type'' of
        Inl e \<Rightarrow> Inl e
      | Inr t \<Rightarrow>
          if t = JStr ''system'' then
            (case subscript msg ''content'' of
               Inl e \<Rightarrow> Inl e
             | Inr c \<Rightarrow>
                 (case contains_def c of
                    Inl e \<Rightarrow> Inl e
                  | Inr found \<Rightarrow> if found then Inr (Some c) else scan_dag rest))
          else scan_dag rest)"

definition load_body :: "json \<Rightarrow> http_result \<Rightarrow> session_state \<Rightarrow> session_state \<times> (exn + ui list)" where
  "load_body sid resp s =
     (case resp of
        Raised e \<Rightarrow> (s, Inl e)
      | Response code body \<Rightarrow>
          if code = 200 then
            (case response_json body of
               Inl e \<Rightarrow> (s, Inl e)
             | Inr data \<Rightarrow>
                 (case dict_get data ''success'' of
                    Inl e \<Rightarrow> (s, Inl e)
                  | Inr ok \<Rightarrow>
                      if truthy ok then
                        (case subscript data ''messages'' of
                           Inl e \<Rightarrow> (s, Inl e)
                         | Inr msgs \<Rightarrow>
                             let s1 = s\<lparr>messages := msgs, session_id := sid,
                                         active_session := sid, generated_dag := JNull\<rparr>
                             in (case py_reversed msgs of
                                   Inl e \<Rightarrow> (s1, Inl e)
                                 | Inr visited \<Rightarrow>
                                     (case scan_dag visited of
                                        Inl e \<Rightarrow> (s1, Inl e)
                                      | Inr None \<Rightarrow> (s1, Inr [])
                                      | Inr (Some c) \<Rightarrow> (s1\<lparr>generated_dag := c\<rparr>, Inr []))))
                      else (s, Inr [St_warning ''No messages in this conversation.''])))
          else (s, Inr [St_error ''Failed to load conversation.'']))"

definition load_conversation :: "json \<Rightarrow> http_result \<Rightarrow> session_state \<Rightarrow> session_state \<times> ui list" where
  "load_conversation sid resp s =
     (case load_body sid resp s of
        (s', Inl e) \<Rightarrow> (s', [St_error_exn ''Error loading conversation: '' e])
      | (s', Inr shown) \<Rightarrow> (s', shown))"

text \<open>
  The value that \<^verbatim>\<open>load_conversation\<close> reads as \<^verbatim>\<open>data["messages"]\<close> on line 54,
  if it gets there: the response has status 200, its body is a dict with a truthy
  \<^verbatim>\<open>success\<close> and a \<^verbatim>\<open>messages\<close> key. \<open>None\<close> collects the other outcomes: an exception
  of the request, another status, a body that is not JSON or not a dict, a \<^verbatim>\<open>success\<close>
  that is missing or falsy, no \<^verbatim>\<open>messages\<close> key.
\<close>

definition response_messages :: "http_result \<Rightarrow> json option" where
  "response_messages resp =
     (case resp of
        Raised e \<Rightarrow> None
      | Response code body \<Rightarrow>
          if code = 200 then
            (case response_json body of
               Inl e \<Rightarrow> None
             | Inr data \<Rightarrow>
                 (case dict_get data ''success'' of
                    Inl e \<Rightarrow> None
                  | Inr ok \<Rightarrow>
                      if truthy ok then
                        (case subscript data ''messages'' of
                           Inl e \<Rightarrow> None
                         | Inr msgs \<Rightarrow> Some msgs)
                      else None))
          else None)"

text \<open>
  The value that the loop of \<^verbatim>\<open>load_conversation\<close> leaves in \<^verbatim>\<open>generated_dag\<close> when
  it is run over a message log: \<^verbatim>\<open>None\<close> unless the loop assigns.
\<close>

definition rescan :: "json \<Rightarrow> exn + json" where
  "rescan msgs =
     (case py_reversed msgs of
        Inl e \<Rightarrow> Inl e
      | Inr visited \<Rightarrow>
          (case scan_dag visited of
             Inl e \<Rightarrow> Inl e
           | Inr None \<Rightarrow> Inr JNull
           | Inr (Some c) \<Rightarrow> Inr c))"

section \<open>The page: clearing the chat and submitting a turn\<close>

text \<open>The "Clear Current Chat" button of \<^verbatim>\<open>main\<close>; \<open>uuid\<close> is \<^verbatim>\<open>str(uuid.uuid4())\<close>.\<close>

definition clear_current_chat :: "string \<Rightarrow> session_state \<Rightarrow> session_state \<times> ui list" where
  "clear_current_chat uuid s =
     (s\<lparr>messages := JArr [], generated_dag := JNull, active_session := JNull,
        session_id := JStr uuid\<rparr>,
      [St_success ''Chat cleared!''])"

text \<open>The dict that \<^verbatim>\<open>main\<close> appends; \<open>ts\<close> is \<^verbatim>\<open>datetime.now().isoformat()\<close>.\<close>

definition new_message :: "string \<Rightarrow> json \<Rightarrow> string \<Rightarrow> json" where
  "new_message mtype content ts =
     JObj [(''message_type'', JStr mtype), (''content'', content), (''timestamp'', JStr ts)]"

text \<open>
  \<^verbatim>\<open>st.session_state.messages.append(m)\<close>: the state reached and the exception, if the
  value under \<^verbatim>\<open>messages\<close> has no \<^verbatim>\<open>append\<close>.
\<close>

definition append_message :: "json \<Rightarrow> session_state \<Rightarrow> session_state \<times> exn option" where
  "append_message m s =
     (case py_append (messages s) m of
        Inl e \<Rightarrow> (s, Some e)
      | Inr ms \<Rightarrow> (s\<lparr>messages := ms\<rparr>, None))"

text \<open>
  \<^verbatim>\<open>f"{v}"\<close>: a string is inserted as it is. For a value that is not a string Python
  inserts \<^verbatim>\<open>str(v)\<close>; the model takes that text as the input \<open>rendered\<close> instead of
  spelling out how Python prints numbers, lists and dicts.
\<close>

definition format_value :: "string \<Rightarrow> json \<Rightarrow> string" where
  "format_value rendered v = (case v of JStr s \<Rightarrow> s | _ \<Rightarrow> rendered)"

text \<open>The two POST requests of a turn, with what they send.\<close>

datatype request =
    Validate_input string
  | Generate_dag string json

text \<open>
  Lines 166 to 189 of \<^verbatim>\<open>main\<close>: what follows the generation request, given its outcome
  \<open>gresp\<close>. The result is the state reached, what was shown, and the exception raised, if any.
\<close>

definition generate_phase :: "string \<Rightarrow> http_result \<Rightarrow> session_state \<Rightarrow> session_state \<times> ui list \<times> exn option" where
  "generate_phase ts gresp s =
     (case gresp of
        Raised e \<Rightarrow> (s, [], Some e)
      | Response code body \<Rightarrow>
          if code = 200 then
            (case response_json body of
               Inl e \<Rightarrow> (s, [], Some e)
             | Inr dag_data \<Rightarrow>
                 (case subscript dag_data ''dag_script'' of
                    Inl e \<Rightarrow> (s, [], Some e)
                  | Inr dag_script \<Rightarrow>
                      (case append_message (new_message ''system'' dag_script ts)
                              (s\<lparr>generated_dag := dag_script\<rparr>) of
                         (s', r) \<Rightarrow> (s', [St_code dag_script], r))))
          else
            (case append_message
                    (new_message ''system'' (JStr ''Failed to generate DAG script.'') ts) s of
               (s', r) \<Rightarrow> (s', [St_error ''Failed to generate DAG script.''], r)))"

text \<open>
  Lines 160 to 204 of \<^verbatim>\<open>main\<close>: what follows a validation request that returned a response
  with status \<open>code\<close> and body \<open>body\<close>. The result also lists the request made here, if any.
\<close>

definition system_reply ::
  "string \<Rightarrow> string \<Rightarrow> string \<Rightarrow> int \<Rightarrow> json option \<Rightarrow> http_result \<Rightarrow> session_state
     \<Rightarrow> session_state \<times> request list \<times> ui list \<times> exn option" where
  "system_reply rendered user_input ts code body gresp s =
     (if code = 200 then
        (case response_json body of
           Inl e \<Rightarrow> (s, [], [], Some e)
         | Inr data \<Rightarrow>
             (case dict_get data ''valid'' of
                Inl e \<Rightarrow> (s, [], [], Some e)
              | Inr valid \<Rightarrow>
                  if truthy valid then
                    (case generate_phase ts gresp s of
                       (s', us, r) \<Rightarrow>
                         (s', [Generate_dag user_input (session_id s)],
                          St_success ''Input validated successfully!'' # us, r))
                  else
                    (case dict_get data ''feedback'' of
                       Inl e \<Rightarrow> (s, [], [], Some e)
                     | Inr fb \<Rightarrow>
                         let feedback = (if truthy fb then fb
                                         else JStr ''Invalid input. Please try again.'');
                             text = format_value rendered feedback
                         in (case append_message (new_message ''system'' (JStr text) ts) s of
                               (s', r) \<Rightarrow> (s', [], [St_error text], r)))))
      else
        (case append_message
                (new_message ''system'' (JStr ''Backend error while validating input.'') ts) s of
           (s', r) \<Rightarrow> (s', [], [St_error ''Backend error while validating input.''], r)))"

text \<open>
  Lines 147 to 204 of \<^verbatim>\<open>main\<close>: one run of the page with \<open>user_input\<close> in the chat box
  (empty: nothing was submitted). \<open>vresp\<close> and \<open>gresp\<close> are the outcomes of the validation and
  the generation request; \<open>gresp\<close> is consulted only if the generation request is made, and
  \<open>rendered\<close> only if the feedback is not a string.
  \<open>raised\<close> is the exception that leaves \<^verbatim>\<open>main\<close>, which has no handler of its own.
\<close>

record turn_result =
  after :: session_state
  calls :: "request list"
  shown :: "ui list"
  raised :: "exn option"

definition chat_turn ::
  "string \<Rightarrow> string \<Rightarrow> string \<Rightarrow> string \<Rightarrow> http_result \<Rightarrow> http_result \<Rightarrow> session_state
     \<Rightarrow> turn_result" where
  "chat_turn rendered user_input ts_user ts_system vresp gresp s =
     (if user_input = [] then \<lparr>after = s, calls = [], shown = [], raised = None\<rparr>
      else
        (case append_message (new_message ''user'' (JStr user_input) ts_user) s of
           (s1, Some e) \<Rightarrow>
             \<lparr>after = s1, calls = [], shown = [St_write user_input], raised = Some e\<rparr>
         | (s1, None) \<Rightarrow>
             (case vresp of
                Raised e \<Rightarrow>
                  \<lparr>after = s1, calls = [Validate_input user_input],
                   shown = [St_write user_input], raised = Some e\<rparr>
              | Response code body \<Rightarrow>
                  (case system_reply rendered user_input ts_system code body gresp s1 of
                     (s2, cs, us, r) \<Rightarrow>
                       \<lparr>after = s2, calls = Validate_input user_input # cs,
                        shown = St_write user_input # us, raised = r\<rparr>))))"

section \<open>Messages and the artifact\<close>

text \<open>A message of the data model: a dict whose type and content are strings.\<close>

fun is_str :: "json \<Rightarrow> bool" where
  "is_str (JStr s) = True"
| "is_str _ = False"

definition is_message :: "json \<Rightarrow> bool" where
  "is_message m =
     (case m of
        JObj kvs \<Rightarrow>
          (case map_of kvs ''message_type'' of None \<Rightarrow> False | Some t \<Rightarrow> is_str t) \<and>
          (case map_of kvs ''content'' of None \<Rightarrow> False | Some c \<Rightarrow> is_str c)
      | _ \<Rightarrow> False)"

text \<open>\<open>is_system_with c m\<close>: \<open>m\<close> is a dict of type \<^verbatim>\<open>"system"\<close> whose content is \<open>c\<close>.\<close>

definition is_system_with :: "json \<Rightarrow> json \<Rightarrow> bool" where
  "is_system_with c m =
     (case m of
        JObj kvs \<Rightarrow>
          map_of kvs ''message_type'' = Some (JStr ''system'') \<and> map_of kvs ''content'' = Some c
      | _ \<Rightarrow> False)"

text \<open>A system message whose content is a string that contains \<^verbatim>\<open>"def "\<close>.\<close>

definition holds_script :: "json \<Rightarrow> bool" where
  "holds_script m =
     (case m of
        JObj kvs \<Rightarrow>
          map_of kvs ''message_type'' = Some (JStr ''system'') \<and>
          (case map_of kvs ''content'' of Some (JStr c) \<Rightarrow> sublist ''def '' c | _ \<Rightarrow> False)
      | _ \<Rightarrow> False)"

text \<open>The messages of a log: the elements of the list, and none when the value is not a list.\<close>

definition log_entries :: "json \<Rightarrow> json list" where
  "log_entries msgs = (case msgs of JArr ms \<Rightarrow> ms | _ \<Rightarrow> [])"

text \<open>
  The invariant of the data model: an artifact that is present (not \<^verbatim>\<open>None\<close>) is the
  content of a system message of the log.
\<close>

definition artifact_in_log :: "session_state \<Rightarrow> bool" where
  "artifact_in_log s =
     (generated_dag s \<noteq> JNull \<longrightarrow>
        list_ex (is_system_with (generated_dag s)) (log_entries (messages s)))"

section \<open>Example values\<close>

text \<open>
  A stored conversation: one generated script followed by two later user messages, and the
  response of \<^verbatim>\<open>/chat_history\<close> that delivers it.
\<close>

definition stored_log :: "json list" where
  "stored_log =
     [new_message ''system'' (JStr ''def process(): pass'') ''2024-05-01T10:00:00'',
      new_message ''user'' (JStr ''thanks'') ''2024-05-01T10:01:00'',
      new_message ''user'' (JStr ''add a retry'') ''2024-05-01T10:02:00'']"

definition stored_response :: http_result where
  "stored_response =
     Response 200 (Some (JObj [(''success'', JBool True), (''messages'', JArr stored_log)]))"

text \<open>A stored conversation in which nothing was generated.\<close>

definition rejected_log :: "json list" where
  "rejected_log =
     [new_message ''user'' (JStr ''asdf'') ''2024-05-02T09:00:00'',
      new_message ''system'' (JStr ''Invalid input. Please try again.'') ''2024-05-02T09:00:01'']"

definition rejected_response :: http_result where
  "rejected_response =
     Response 200 (Some (JObj [(''success'', JBool True), (''messages'', JArr rejected_log)]))"

text \<open>A response of \<^verbatim>\<open>/chat_history\<close> whose only message has \<^verbatim>\<open>null\<close> as its content.\<close>

definition null_content_response :: http_result where
  "null_content_response =
     Response 200 (Some (JObj [(''success'', JBool True),
       (''messages'', JArr [new_message ''system'' JNull ''2024-05-01T10:00:00''])]))"

text \<open>A session that holds the stored conversation under the id \<^verbatim>\<open>abc123\<close>.\<close>

definition loaded_session :: session_state where
  "loaded_session =
     \<lparr> session_id = JStr ''abc123'', messages = JArr stored_log, history = JArr [],
       active_session = JStr ''abc123'', generated_dag = JStr ''def process(): pass'' \<rparr>"

text \<open>A request for a pipeline, and responses of \<^verbatim>\<open>/validate_input\<close> and
  \<^verbatim>\<open>/generate_dag\<close>.\<close>

definition etl_request :: string where
  "etl_request = ''Build a daily ETL: extract, transform, load, schedule daily at 2am''"

definition accepting_response :: http_result where
  "accepting_response = Response 200 (Some (JObj [(''valid'', JBool True)]))"

definition rejecting_response :: http_result where
  "rejecting_response =
     Response 200 (Some (JObj [(''valid'', JBool False),
                               (''feedback'', JStr ''Please describe at least one task.'')]))"

definition script_response :: http_result where
  "script_response = Response 200 (Some (JObj [(''dag_script'', JStr ''def etl(): ...'')]))"

definition plain_script_response :: http_result where
  "plain_script_response =
     Response 200 (Some (JObj [(''dag_script'', JStr ''import airflow'')]))"

definition scriptless_response :: http_result where
  "scriptless_response = Response 200 (Some (JObj [(''error'', JStr ''generation failed'')]))"

text \<open>The log of a new session after a turn that generated a script without a function.\<close>

definition plain_script_log :: "json list" where
  "plain_script_log =
     [JObj [(''message_type'', JStr ''user''), (''content'', JStr etl_request),
            (''timestamp'', JStr ''2024-05-01T10:00:00'')],
      JObj [(''message_type'', JStr ''system''), (''content'', JStr ''import airflow''),
            (''timestamp'', JStr ''2024-05-01T10:00:01'')]]"

section \<open>Properties of the scan for the artifact\<close>

lemma is_str_iff: "is_str v \<longleftrightarrow> (\<exists>s. v = JStr s)"
  by (cases v) simp_all

lemma is_message_iff:
  "is_message m \<longleftrightarrow>
     (\<exists>kvs t c. m = JObj kvs \<and> map_of kvs ''message_type'' = Some (JStr t) \<and>
                 map_of kvs ''content'' = Some (JStr c))"
  by (cases m) (auto simp: is_message_def is_str_iff split: option.splits)

lemma holds_script_iff:
  "holds_script m \<longleftrightarrow>
     (\<exists>kvs c. m = JObj kvs \<and> map_of kvs ''message_type'' = Some (JStr ''system'') \<and>
               map_of kvs ''content'' = Some (JStr c) \<and> sublist ''def '' c)"
  by (cases m) (auto simp: holds_script_def split: option.splits json.splits)

text \<open>The loop passes over a message that does not hold a script.\<close>

lemma scan_dag_skip:
  assumes "is_message m" and "\<not> holds_script m"
  shows "scan_dag (m # rest) = scan_dag rest"
proof -
  from assms(1) obtain kvs t c where m: "m = JObj kvs"
    and t: "map_of kvs ''message_type'' = Some (JStr t)"
    and c: "map_of kvs ''content'' = Some (JStr c)"
    unfolding is_message_iff by blast
  from assms(2) have "t = ''system'' \<longrightarrow> \<not> sublist ''def '' c"
    unfolding holds_script_iff using m t c by simp
  then show ?thesis
    by (simp add: m t c)
qed

text \<open>The loop stops at a message that holds a script, with its content.\<close>

lemma scan_dag_hit:
  assumes "holds_script m"
  shows "\<exists>c. subscript m ''content'' = Inr c \<and> scan_dag (m # rest) = Inr (Some c)"
proof -
  from assms obtain kvs c where m: "m = JObj kvs"
    and t: "map_of kvs ''message_type'' = Some (JStr ''system'')"
    and c: "map_of kvs ''content'' = Some (JStr c)" and d: "sublist ''def '' c"
    unfolding holds_script_iff by blast
  show ?thesis
    by (simp add: m t c d)
qed

lemma scan_dag_none:
  "\<forall>m\<in>set xs. is_message m \<and> \<not> holds_script m \<Longrightarrow> scan_dag xs = Inr None"
proof (induction xs)
  case Nil
  then show ?case by simp
next
  case (Cons m xs)
  then have "scan_dag (m # xs) = scan_dag xs"
    by (simp add: scan_dag_skip del: scan_dag.simps)
  with Cons show ?case by simp
qed

lemma scan_dag_first:
  assumes "\<forall>m\<in>set pre. is_message m \<and> \<not> holds_script m"
    and "holds_script m"
  shows "\<exists>c. subscript m ''content'' = Inr c \<and> scan_dag (pre @ m # post) = Inr (Some c)"
  using assms(1)
proof (induction pre)
  case Nil
  show ?case using scan_dag_hit [OF assms(2)] by simp
next
  case (Cons a pre)
  then have "scan_dag ((a # pre) @ m # post) = scan_dag (pre @ m # post)"
    by (simp add: scan_dag_skip del: scan_dag.simps)
  with Cons show ?case by simp
qed

text \<open>
  Over a list of messages of the data model, the scan finds nothing when no message holds a
  script, and otherwise the content of the last message of the list that holds one.
\<close>

lemma rescan_list:
  assumes "\<forall>m\<in>set ms. is_message m"
  shows "(\<not> list_ex holds_script ms \<longrightarrow> rescan (JArr ms) = Inr JNull) \<and>
         (\<forall>older m newer.
            ms = older @ m # newer \<and> holds_script m \<and> \<not> list_ex holds_script newer
            \<longrightarrow> subscript m ''content'' = rescan (JArr ms))"
proof (intro conjI impI allI)
  assume "\<not> list_ex holds_script ms"
  with assms have "\<forall>m\<in>set (rev ms). is_message m \<and> \<not> holds_script m"
    by (simp add: list_ex_iff)
  then have "scan_dag (rev ms) = Inr None" by (rule scan_dag_none)
  then show "rescan (JArr ms) = Inr JNull" by (simp add: rescan_def)
next
  fix older m newer
  assume h: "ms = older @ m # newer \<and> holds_script m \<and> \<not> list_ex holds_script newer"
  with assms have "\<forall>x\<in>set (rev newer). is_message x \<and> \<not> holds_script x"
    by (simp add: list_ex_iff)
  from scan_dag_first [OF this, of m "rev older"] h
  obtain c where "subscript m ''content'' = Inr c"
    and "scan_dag (rev newer @ m # rev older) = Inr (Some c)"
    by blast
  then show "subscript m ''content'' = rescan (JArr ms)"
    using h by (simp add: rescan_def)
qed

text \<open>Whatever the loop assigns is the content of a system message that it visited, and
  passed the \<^verbatim>\<open>in\<close> test.\<close>

lemma scan_dag_step:
  assumes "scan_dag (m # rest) = Inr (Some c)"
  shows "(is_system_with c m \<and> contains_def c = Inr True) \<or> scan_dag rest = Inr (Some c)"
proof (cases m)
  case (JObj kvs)
  with assms show ?thesis
    by (auto simp: is_system_with_def split: option.splits if_splits sum.splits)
qed (use assms in simp_all)

lemma scan_dag_some:
  "scan_dag xs = Inr (Some c) \<Longrightarrow> \<exists>m\<in>set xs. is_system_with c m \<and> contains_def c = Inr True"
proof (induction xs)
  case Nil
  then show ?case by simp
next
  case (Cons m xs)
  from scan_dag_step [OF Cons.prems] Cons.IH show ?case by auto
qed

lemma rescan_some:
  assumes "rescan msgs = Inr v" and "v \<noteq> JNull"
  shows "\<exists>ms. msgs = JArr ms \<and> list_ex (is_system_with v) ms \<and> contains_def v = Inr True"
proof -
  from assms obtain visited where r: "py_reversed msgs = Inr visited"
    and sc: "scan_dag visited = Inr (Some v)"
    by (auto simp: rescan_def split: sum.splits option.splits)
  from scan_dag_some [OF sc] obtain m where m: "m \<in> set visited" "is_system_with v m"
    and d: "contains_def v = Inr True" by blast
  show ?thesis
  proof (cases msgs)
    case (JArr ms)
    with r m d show ?thesis by (auto simp: list_ex_iff)
  next
    case (JStr s)
    with r m show ?thesis by (auto simp: is_system_with_def)
  next
    case (JObj kvs)
    with r m show ?thesis by (auto simp: is_system_with_def)
  qed (use r in simp_all)
qed

section \<open>Properties of loading\<close>

text \<open>When the response delivers messages, they are installed with the given id, and the
  artifact is what the scan finds in them; an exception of the scan is shown as a notice.\<close>

lemma load_conversation_installs:
  assumes "response_messages resp = Some msgs"
  shows "load_conversation sid resp s =
           (s\<lparr>messages := msgs, session_id := sid, active_session := sid,
              generated_dag := (case rescan msgs of Inl e \<Rightarrow> JNull | Inr v \<Rightarrow> v)\<rparr>,
            (case rescan msgs of
               Inl e \<Rightarrow> [St_error_exn ''Error loading conversation: '' e]
             | Inr v \<Rightarrow> []))"
  using assms
  by (auto simp: response_messages_def load_conversation_def load_body_def rescan_def Let_def
      split: http_result.splits sum.splits if_splits option.splits)

lemma load_conversation_keeps:
  assumes "response_messages resp = None"
  shows "fst (load_conversation sid resp s) = s \<and> snd (load_conversation sid resp s) \<noteq> []"
  using assms
  by (auto simp: response_messages_def load_conversation_def load_body_def
      split: http_result.splits sum.splits if_splits)

lemma load_conversation_raised:
  "load_conversation sid (Raised e) s = (s, [St_error_exn ''Error loading conversation: '' e])"
  by (simp add: load_conversation_def load_body_def)

lemma load_conversation_status:
  "code \<noteq> 200 \<Longrightarrow>
   load_conversation sid (Response code body) s = (s, [St_error ''Failed to load conversation.''])"
  by (simp add: load_conversation_def load_body_def)

lemma load_conversation_no_success:
  "dict_get data ''success'' = Inr ok \<Longrightarrow> \<not> truthy ok \<Longrightarrow>
   load_conversation sid (Response 200 (Some data)) s =
     (s, [St_warning ''No messages in this conversation.''])"
  by (simp add: load_conversation_def load_body_def)

lemma stored_log_script:
  "holds_script (new_message ''system'' (JStr ''def process(): pass'') ''2024-05-01T10:00:00'')"
  by (simp add: holds_script_def new_message_def sublist_Cons_right)

lemma stored_log_newer:
  "\<not> list_ex holds_script
        [new_message ''user'' (JStr ''thanks'') ''2024-05-01T10:01:00'',
         new_message ''user'' (JStr ''add a retry'') ''2024-05-01T10:02:00'']"
  by (simp add: holds_script_def new_message_def)

lemma fetch_all_raised:
  "fetch_all_conversations (Raised e) s = (s, [St_error_exn ''Error fetching history: '' e])"
  by (simp add: fetch_all_conversations_def fetch_all_body_def)

lemma fetch_all_status:
  "code \<noteq> 200 \<Longrightarrow>
   fetch_all_conversations (Response code body) s =
     (s, [St_error ''Failed to fetch conversation history.''])"
  by (simp add: fetch_all_conversations_def fetch_all_body_def)

text \<open>Fetching the list of conversations touches neither the log nor the artifact.\<close>

lemma fetch_all_keeps_log:
  "messages (fst (fetch_all_conversations resp s)) = messages s \<and>
   generated_dag (fst (fetch_all_conversations resp s)) = generated_dag s"
  by (auto simp: fetch_all_conversations_def fetch_all_body_def
      split: http_result.splits sum.splits)

section \<open>Properties of a turn\<close>

lemma append_message_list:
  "messages s = JArr ms \<Longrightarrow> append_message m s = (s\<lparr>messages := JArr (ms @ [m])\<rparr>, None)"
  by (simp add: append_message_def)

text \<open>The scan of a log that ends with a user message and a system message.\<close>

lemma rescan_after_script:
  "rescan (JArr (ms @ [new_message ''user'' u ts_user, new_message ''system'' (JStr script) ts_system]))
     = (if sublist ''def '' script then Inr (JStr script) else rescan (JArr ms))"
  by (simp add: rescan_def new_message_def)

text \<open>A turn that no exception leaves has appended the user message and one system
  message.\<close>

lemma generate_phase_appends:
  assumes "messages s = JArr ms" and "snd (snd (generate_phase ts gresp s)) = None"
  shows "\<exists>c. messages (fst (generate_phase ts gresp s)) = JArr (ms @ [new_message ''system'' c ts])"
  using assms
  by (auto simp: generate_phase_def append_message_list split: http_result.splits sum.splits if_splits)

lemma system_reply_appends:
  assumes "messages s = JArr ms"
    and "snd (snd (snd (system_reply rendered user_input ts code body gresp s))) = None"
  shows "\<exists>c. messages (fst (system_reply rendered user_input ts code body gresp s)) =
               JArr (ms @ [new_message ''system'' c ts])"
proof (cases "code = 200")
  case False
  with assms show ?thesis by (auto simp: system_reply_def append_message_list)
next
  case True
  with assms generate_phase_appends [OF assms(1), of ts gresp] show ?thesis
    by (auto simp: system_reply_def append_message_list Let_def case_prod_beta split: sum.splits if_splits)
qed

lemma chat_turn_appends_two:
  assumes "user_input \<noteq> []" and "messages s = JArr ms"
    and "raised (chat_turn rendered user_input ts_user ts_system vresp gresp s) = None"
  shows "\<exists>c. messages (after (chat_turn rendered user_input ts_user ts_system vresp gresp s)) =
           JArr (ms @ [new_message ''user'' (JStr user_input) ts_user,
                       new_message ''system'' c ts_system])"
proof (cases vresp)
  case (Raised e)
  with assms show ?thesis by (simp add: chat_turn_def append_message_list)
next
  case (Response code body)
  define s1 where "s1 = s\<lparr>messages := JArr (ms @ [new_message ''user'' (JStr user_input) ts_user])\<rparr>"
  have m1: "messages s1 = JArr (ms @ [new_message ''user'' (JStr user_input) ts_user])"
    by (simp add: s1_def)
  from assms Response
  have "snd (snd (snd (system_reply rendered user_input ts_system code body gresp s1))) = None"
    by (simp add: chat_turn_def append_message_list s1_def case_prod_beta)
  from system_reply_appends [OF m1 this] assms Response show ?thesis
    by (simp add: chat_turn_def append_message_list s1_def case_prod_beta)
qed

section \<open>The artifact stays in the log\<close>

lemma append_message_inv:
  assumes "artifact_in_log s"
  shows "artifact_in_log (fst (append_message m s))"
proof (cases "messages s")
  case (JArr ms)
  with assms show ?thesis
    by (auto simp: artifact_in_log_def append_message_def log_entries_def)
qed (use assms in \<open>simp_all add: append_message_def\<close>)

lemma append_script_inv:
  assumes "messages s = JArr ms"
  shows "artifact_in_log (fst (append_message (new_message ''system'' c ts) (s\<lparr>generated_dag := c\<rparr>)))"
  using assms
  by (simp add: artifact_in_log_def append_message_def new_message_def is_system_with_def
      log_entries_def)

lemma generate_phase_inv:
  assumes "artifact_in_log s" and "messages s = JArr ms"
  shows "artifact_in_log (fst (generate_phase ts gresp s))"
proof (cases gresp)
  case (Raised e)
  with assms show ?thesis by (simp add: generate_phase_def)
next
  case (Response code body)
  show ?thesis
  proof (cases "code = 200")
    case False
    with Response append_message_inv [OF assms(1)] show ?thesis
      by (simp add: generate_phase_def case_prod_beta)
  next
    case True
    with Response assms(1) append_script_inv [OF assms(2)] show ?thesis
      by (auto simp: generate_phase_def case_prod_beta split: sum.splits)
  qed
qed

lemma system_reply_inv:
  assumes "artifact_in_log s" and "messages s = JArr ms"
  shows "artifact_in_log (fst (system_reply rendered user_input ts code body gresp s))"
proof (cases "code = 200")
  case False
  with append_message_inv [OF assms(1)] show ?thesis
    by (simp add: system_reply_def case_prod_beta)
next
  case True
  with assms(1) append_message_inv [OF assms(1)] generate_phase_inv [OF assms] show ?thesis
    by (auto simp: system_reply_def Let_def case_prod_beta split: sum.splits)
qed

lemma chat_turn_inv:
  assumes "artifact_in_log s"
  shows "artifact_in_log (after (chat_turn rendered user_input ts_user ts_system vresp gresp s))"
proof (cases "messages s")
  case (JArr ms)
  define s1 where "s1 = s\<lparr>messages := JArr (ms @ [new_message ''user'' (JStr user_input) ts_user])\<rparr>"
  have a: "append_message (new_message ''user'' (JStr user_input) ts_user) s = (s1, None)"
    by (simp add: append_message_def JArr s1_def)
  have i1: "artifact_in_log s1"
    using append_message_inv [OF assms, of "new_message ''user'' (JStr user_input) ts_user"] a
    by simp
  have m1: "messages s1 = JArr (ms @ [new_message ''user'' (JStr user_input) ts_user])"
    by (simp add: s1_def)
  show ?thesis
  proof (cases vresp)
    case (Raised e)
    with assms i1 a show ?thesis by (simp add: chat_turn_def)
  next
    case (Response code body)
    with assms a system_reply_inv [OF i1 m1, of rendered user_input ts_system code body gresp]
    show ?thesis
      by (simp add: chat_turn_def case_prod_beta)
  qed
qed (use assms in \<open>simp_all add: chat_turn_def append_message_def\<close>)

lemma load_conversation_inv:
  assumes "artifact_in_log s"
  shows "artifact_in_log (fst (load_conversation sid resp s))"
proof (cases "response_messages resp")
  case None
  with assms load_conversation_keeps [OF None, of sid s] show ?thesis by simp
next
  case (Some msgs)
  show ?thesis
  proof (cases "rescan msgs")
    case (Inl e)
    then show ?thesis
      by (simp add: load_conversation_installs [OF Some] artifact_in_log_def)
  next
    case (Inr v)
    show ?thesis
    proof (cases "v = JNull")
      case True
      with Inr show ?thesis
        by (simp add: load_conversation_installs [OF Some] artifact_in_log_def)
    next
      case False
      from rescan_some [OF Inr False] obtain ms where "msgs = JArr ms"
        and "list_ex (is_system_with v) ms" by blast
      with Inr show ?thesis
        by (simp add: load_conversation_installs [OF Some] artifact_in_log_def log_entries_def)
    qed
  qed
qed

section \<open>Further properties\<close>

text \<open>
  When validation accepts and generation returns a script text, the turn appends it as the
  content of a system message and makes it the artifact. The artifact is what the scan of the
  updated log finds exactly when the script contains \<^verbatim>\<open>"def "\<close>.
\<close>

lemma generated_turn_rescan:
  assumes "user_input \<noteq> []" and "messages s = JArr ms"
    and "dict_get data ''valid'' = Inr v" and "truthy v"
    and "subscript dag_data ''dag_script'' = Inr (JStr script)"
  shows "chat_turn rendered user_input ts_user ts_system (Response 200 (Some data))
             (Response 200 (Some dag_data)) s =
           \<lparr>after = s\<lparr>generated_dag := JStr script,
                      messages := JArr (ms @ [new_message ''user'' (JStr user_input) ts_user,
                                              new_message ''system'' (JStr script) ts_system])\<rparr>,
            calls = [Validate_input user_input, Generate_dag user_input (session_id s)],
            shown = [St_write user_input, St_success ''Input validated successfully!'',
                     St_code (JStr script)],
            raised = None\<rparr> \<and>
         (rescan (messages (after (chat_turn rendered user_input ts_user ts_system
                     (Response 200 (Some data)) (Response 200 (Some dag_data)) s))) =
            Inr (generated_dag (after (chat_turn rendered user_input ts_user ts_system
                     (Response 200 (Some data)) (Response 200 (Some dag_data)) s)))
          \<longleftrightarrow> sublist ''def '' script)"
proof -
  have turn: "chat_turn rendered user_input ts_user ts_system (Response 200 (Some data))
             (Response 200 (Some dag_data)) s =
           \<lparr>after = s\<lparr>generated_dag := JStr script,
                      messages := JArr (ms @ [new_message ''user'' (JStr user_input) ts_user,
                                              new_message ''system'' (JStr script) ts_system])\<rparr>,
            calls = [Validate_input user_input, Generate_dag user_input (session_id s)],
            shown = [St_write user_input, St_success ''Input validated successfully!'',
                     St_code (JStr script)],
            raised = None\<rparr>"
    using assms
    by (simp add: chat_turn_def system_reply_def generate_phase_def append_message_list)
  have "rescan (JArr ms) \<noteq> Inr (JStr script)" if "\<not> sublist ''def '' script"
  proof
    assume "rescan (JArr ms) = Inr (JStr script)"
    from rescan_some [OF this] have "contains_def (JStr script) = Inr True" by simp
    with that show False by simp
  qed
  then have "rescan (JArr (ms @ [new_message ''user'' (JStr user_input) ts_user,
                 new_message ''system'' (JStr script) ts_system])) = Inr (JStr script)
             \<longleftrightarrow> sublist ''def '' script"
    by (simp add: rescan_after_script)
  with turn show ?thesis by simp
qed

text \<open>
  The clear empties the log, removes the artifact and the active session, keeps the list of
  conversations and installs the drawn id.
\<close>

lemma clear_current_chat_resets:
  "messages (fst (clear_current_chat uuid s)) = JArr [] \<and>
   generated_dag (fst (clear_current_chat uuid s)) = JNull \<and>
   active_session (fst (clear_current_chat uuid s)) = JNull \<and>
   session_id (fst (clear_current_chat uuid s)) = JStr uuid \<and>
   history (fst (clear_current_chat uuid s)) = history s"
  by (simp add: clear_current_chat_def)

text \<open>
  A load that fails before line 54 (an exception of the request, a status other than 200, a
  body that is not JSON or not a dict, a \<^verbatim>\<open>success\<close> that is missing or falsy, no
  \<^verbatim>\<open>messages\<close> key) leaves the state unchanged and shows a notice.
\<close>

lemma load_failure_keeps_state:
  "(response_messages resp = None \<longrightarrow>
      fst (load_conversation sid resp s) = s \<and> snd (load_conversation sid resp s) \<noteq> []) \<and>
   load_conversation sid (Raised e) s = (s, [St_error_exn ''Error loading conversation: '' e]) \<and>
   (code \<noteq> 200 \<longrightarrow>
      load_conversation sid (Response code body) s =
        (s, [St_error ''Failed to load conversation.''])) \<and>
   (dict_get data ''success'' = Inr ok \<and> \<not> truthy ok \<longrightarrow>
      load_conversation sid (Response 200 (Some data)) s =
        (s, [St_warning ''No messages in this conversation.'']))"
  using load_conversation_keeps [of resp sid s] load_conversation_raised [of sid e s]
    load_conversation_status [of code sid body s] load_conversation_no_success [of data ok sid s]
  by blast

text \<open>
  Over messages of the data model the scan raises nothing, so a load that delivers such a
  list shows no notice: a load of such a response that shows a notice has left the state
  unchanged.
\<close>

lemma scan_dag_messages_return:
  "\<forall>m\<in>set xs. is_message m \<Longrightarrow> \<exists>r. scan_dag xs = Inr r"
proof (induction xs)
  case Nil
  then show ?case by simp
next
  case (Cons m xs)
  show ?case
  proof (cases "holds_script m")
    case True
    from scan_dag_hit [OF True, of xs] show ?thesis by blast
  next
    case False
    with Cons.prems have "scan_dag (m # xs) = scan_dag xs"
      by (simp add: scan_dag_skip del: scan_dag.simps)
    with Cons show ?thesis by simp
  qed
qed

lemma load_messages_failure_keeps_state:
  assumes "response_messages resp = None \<or>
           (\<exists>ms. response_messages resp = Some (JArr ms) \<and> (\<forall>m\<in>set ms. is_message m))"
    and "snd (load_conversation sid resp s) \<noteq> []"
  shows "fst (load_conversation sid resp s) = s"
proof (cases "response_messages resp")
  case None
  then show ?thesis using load_conversation_keeps [of resp sid s] by simp
next
  case (Some msgs)
  with assms(1) obtain ms where ms: "msgs = JArr ms" and wf: "\<forall>m\<in>set ms. is_message m"
    by auto
  from wf have "\<forall>m\<in>set (rev ms). is_message m" by simp
  from scan_dag_messages_return [OF this] obtain r where "scan_dag (rev ms) = Inr r" by blast
  then have "\<exists>v. rescan msgs = Inr v"
    by (cases r) (simp_all add: rescan_def ms)
  then have "snd (load_conversation sid resp s) = []"
    by (auto simp: load_conversation_installs [OF Some])
  with assms(2) show ?thesis by simp
qed

section \<open>The claims\<close>

text \<open>
  Claim C1. A submitted turn should append exactly one user message and exactly one system
  message whatever its outcome. When the backend cannot be reached,
  \<^verbatim>\<open>requests.post\<close> raises on line 159; \<^verbatim>\<open>main\<close> has no handler, unlike
  \<^verbatim>\<open>fetch_all_conversations\<close> and \<^verbatim>\<open>load_conversation\<close>. The turn then ends with the user
  message appended, no system message, and the exception leaving \<^verbatim>\<open>main\<close>.
\<close>

theorem turn_connection_error_leaves_no_reply:
  "chat_turn [] etl_request ''2024-05-01T10:00:00'' ''2024-05-01T10:00:01''
       (Raised ConnectionError) script_response new_session =
     \<lparr>after = new_session\<lparr>messages := JArr
          [new_message ''user'' (JStr etl_request) ''2024-05-01T10:00:00'']\<rparr>,
      calls = [Validate_input etl_request],
      shown = [St_write etl_request],
      raised = Some ConnectionError\<rparr>"
  by (simp add: chat_turn_def append_message_def new_session_def init_session_def fresh_state_def
      etl_request_def)

text \<open>
  Claim C2, as amended. A response with a status other than 200 to the validation or the
  generation request ends the turn without an exception; the log has grown by the user
  message and by one dict whose \<^verbatim>\<open>message_type\<close> is \<^verbatim>\<open>"system"\<close> and whose
  \<^verbatim>\<open>content\<close> is the notice of the failure. A failure of the request for the list of conversations or for a
  conversation, be it an exception of the request or a status other than 200, is caught and
  shown as an error notice; the state, and with it the message log, stays as it was.
\<close>

theorem remote_failures_handled:
  "(user_input \<noteq> [] \<and> messages s = JArr ms \<and> code \<noteq> 200 \<longrightarrow>
      chat_turn rendered user_input ts_user ts_system (Response code body) gresp s =
        \<lparr>after = s\<lparr>messages := JArr (ms @
             [JObj [(''message_type'', JStr ''user''), (''content'', JStr user_input),
                   (''timestamp'', JStr ts_user)],
              JObj [(''message_type'', JStr ''system''), (''content'', JStr ''Backend error while validating input.''),
                   (''timestamp'', JStr ts_system)]])\<rparr>,
         calls = [Validate_input user_input],
         shown = [St_write user_input, St_error ''Backend error while validating input.''],
         raised = None\<rparr>) \<and>
   (user_input \<noteq> [] \<and> messages s = JArr ms \<and> dict_get data ''valid'' = Inr v \<and> truthy v \<and>
    code \<noteq> 200 \<longrightarrow>
      chat_turn rendered user_input ts_user ts_system (Response 200 (Some data))
          (Response code body) s =
        \<lparr>after = s\<lparr>messages := JArr (ms @
             [JObj [(''message_type'', JStr ''user''), (''content'', JStr user_input),
                   (''timestamp'', JStr ts_user)],
              JObj [(''message_type'', JStr ''system''), (''content'', JStr ''Failed to generate DAG script.''),
                   (''timestamp'', JStr ts_system)]])\<rparr>,
         calls = [Validate_input user_input, Generate_dag user_input (session_id s)],
         shown = [St_write user_input, St_success ''Input validated successfully!'',
                  St_error ''Failed to generate DAG script.''],
         raised = None\<rparr>) \<and>
   fetch_all_conversations (Raised e) s = (s, [St_error_exn ''Error fetching history: '' e]) \<and>
   (code \<noteq> 200 \<longrightarrow>
      fetch_all_conversations (Response code body) s =
        (s, [St_error ''Failed to fetch conversation history.''])) \<and>
   load_conversation sid (Raised e) s = (s, [St_error_exn ''Error loading conversation: '' e]) \<and>
   (code \<noteq> 200 \<longrightarrow>
      load_conversation sid (Response code body) s =
        (s, [St_error ''Failed to load conversation.'']))"
proof -
  have validate: "chat_turn rendered user_input ts_user ts_system (Response code body) gresp s =
        \<lparr>after = s\<lparr>messages := JArr (ms @
             [JObj [(''message_type'', JStr ''user''), (''content'', JStr user_input),
                   (''timestamp'', JStr ts_user)],
              JObj [(''message_type'', JStr ''system''), (''content'', JStr ''Backend error while validating input.''),
                   (''timestamp'', JStr ts_system)]])\<rparr>,
         calls = [Validate_input user_input],
         shown = [St_write user_input, St_error ''Backend error while validating input.''],
         raised = None\<rparr>"
    if "user_input \<noteq> []" "messages s = JArr ms" "code \<noteq> 200"
    using that by (simp add: chat_turn_def system_reply_def append_message_list new_message_def)
  have generate: "chat_turn rendered user_input ts_user ts_system (Response 200 (Some data))
          (Response code body) s =
        \<lparr>after = s\<lparr>messages := JArr (ms @
             [JObj [(''message_type'', JStr ''user''), (''content'', JStr user_input),
                   (''timestamp'', JStr ts_user)],
              JObj [(''message_type'', JStr ''system''), (''content'', JStr ''Failed to generate DAG script.''),
                   (''timestamp'', JStr ts_system)]])\<rparr>,
         calls = [Validate_input user_input, Generate_dag user_input (session_id s)],
         shown = [St_write user_input, St_success ''Input validated successfully!'',
                  St_error ''Failed to generate DAG script.''],
         raised = None\<rparr>"
    if "user_input \<noteq> []" "messages s = JArr ms" "dict_get data ''valid'' = Inr v" "truthy v"
      "code \<noteq> 200"
    using that
    by (simp add: chat_turn_def system_reply_def generate_phase_def append_message_list
        new_message_def)
  from validate generate show ?thesis
    using fetch_all_raised [of e s] fetch_all_status [of code body s]
      load_conversation_raised [of sid e s] load_conversation_status [of code sid body s]
    by blast
qed

text \<open>Status 500 on each of the four requests, in a new session.\<close>

theorem remote_failures_handled_witness:
  "chat_turn [] etl_request ''2024-05-01T10:00:00'' ''2024-05-01T10:00:01'' (Response 500 None)
       script_response new_session =
     \<lparr>after = new_session\<lparr>messages := JArr
          [JObj [(''message_type'', JStr ''user''), (''content'', JStr etl_request),
                   (''timestamp'', JStr ''2024-05-01T10:00:00'')],
           JObj [(''message_type'', JStr ''system''), (''content'', JStr ''Backend error while validating input.''),
                   (''timestamp'', JStr ''2024-05-01T10:00:01'')]]\<rparr>,
      calls = [Validate_input etl_request],
      shown = [St_write etl_request, St_error ''Backend error while validating input.''],
      raised = None\<rparr> \<and>
   chat_turn [] etl_request ''2024-05-01T10:00:00'' ''2024-05-01T10:00:01'' accepting_response
       (Response 500 None) new_session =
     \<lparr>after = new_session\<lparr>messages := JArr
          [JObj [(''message_type'', JStr ''user''), (''content'', JStr etl_request),
                   (''timestamp'', JStr ''2024-05-01T10:00:00'')],
           JObj [(''message_type'', JStr ''system''), (''content'', JStr ''Failed to generate DAG script.''),
                   (''timestamp'', JStr ''2024-05-01T10:00:01'')]]\<rparr>,
      calls = [Validate_input etl_request, Generate_dag etl_request (session_id new_session)],
      shown = [St_write etl_request, St_success ''Input validated successfully!'',
               St_error ''Failed to generate DAG script.''],
      raised = None\<rparr> \<and>
   fetch_all_conversations (Response 500 None) new_session =
     (new_session, [St_error ''Failed to fetch conversation history.'']) \<and>
   load_conversation (JStr ''abc123'') (Response 500 None) new_session =
     (new_session, [St_error ''Failed to load conversation.''])"
proof -
  have i: "etl_request \<noteq> []" by (simp add: etl_request_def)
  have m: "messages new_session = JArr []"
    by (simp add: new_session_def init_session_def fresh_state_def)
  have c: "(500::int) \<noteq> 200" by simp
  have v: "dict_get (JObj [(''valid'', JBool True)]) ''valid'' = Inr (JBool True)" by simp
  have t: "truthy (JBool True)" by simp
  note r = remote_failures_handled [where user_input = etl_request and s = new_session
      and ms = "[]" and code = 500 and body = None and rendered = "[]"
      and ts_user = "''2024-05-01T10:00:00''" and ts_system = "''2024-05-01T10:00:01''"
      and data = "JObj [(''valid'', JBool True)]" and v = "JBool True"
      and sid = "JStr ''abc123''", folded accepting_response_def]
  from r i m c have 1: "chat_turn [] etl_request ''2024-05-01T10:00:00'' ''2024-05-01T10:00:01''
       (Response 500 None) script_response new_session =
     \<lparr>after = new_session\<lparr>messages := JArr
          [JObj [(''message_type'', JStr ''user''), (''content'', JStr etl_request),
                   (''timestamp'', JStr ''2024-05-01T10:00:00'')],
           JObj [(''message_type'', JStr ''system''), (''content'', JStr ''Backend error while validating input.''),
                   (''timestamp'', JStr ''2024-05-01T10:00:01'')]]\<rparr>,
      calls = [Validate_input etl_request],
      shown = [St_write etl_request, St_error ''Backend error while validating input.''],
      raised = None\<rparr>"
    by simp
  from r i m c v t have 2: "chat_turn [] etl_request ''2024-05-01T10:00:00'' ''2024-05-01T10:00:01''
       accepting_response (Response 500 None) new_session =
     \<lparr>after = new_session\<lparr>messages := JArr
          [JObj [(''message_type'', JStr ''user''), (''content'', JStr etl_request),
                   (''timestamp'', JStr ''2024-05-01T10:00:00'')],
           JObj [(''message_type'', JStr ''system''), (''content'', JStr ''Failed to generate DAG script.''),
                   (''timestamp'', JStr ''2024-05-01T10:00:01'')]]\<rparr>,
      calls = [Validate_input etl_request, Generate_dag etl_request (session_id new_session)],
      shown = [St_write etl_request, St_success ''Input validated successfully!'',
               St_error ''Failed to generate DAG script.''],
      raised = None\<rparr>"
    by simp
  from r c have 3: "fetch_all_conversations (Response 500 None) new_session =
     (new_session, [St_error ''Failed to fetch conversation history.''])"
    and 4: "load_conversation (JStr ''abc123'') (Response 500 None) new_session =
     (new_session, [St_error ''Failed to load conversation.''])"
    by simp_all
  from 1 2 3 4 show ?thesis by blast
qed

text \<open>
  Claim C2 as stated fails: a failed load and a failed fetch of the list are shown as
  notices, and no system message is appended to the log, which stays empty.
\<close>

theorem load_failure_appends_nothing_counterexample:
  "load_conversation (JStr ''abc123'') (Response 500 None) new_session =
     (new_session, [St_error ''Failed to load conversation.'']) \<and>
   fetch_all_conversations (Raised ConnectionError) new_session =
     (new_session, [St_error_exn ''Error fetching history: '' ConnectionError]) \<and>
   messages new_session = JArr []"
  by (simp add: load_conversation_def load_body_def fetch_all_conversations_def
      fetch_all_body_def new_session_def init_session_def fresh_state_def)

text \<open>
  Claim C3. Let a load deliver a list of messages of the data model (dicts whose type and
  content are strings). If no message of the list is a system message whose content contains
  \<^verbatim>\<open>"def "\<close>, the load leaves no artifact. Otherwise the artifact is the content of the most
  recent such message: the one that no such message follows in the list.
\<close>

theorem load_conversation_extracts_latest_script:
  assumes "response_messages resp = Some (JArr ms)"
    and "\<forall>m\<in>set ms. is_message m"
  shows "(\<not> list_ex holds_script ms \<longrightarrow>
            generated_dag (fst (load_conversation sid resp s)) = JNull) \<and>
         (\<forall>older m newer.
            ms = older @ m # newer \<and> holds_script m \<and> \<not> list_ex holds_script newer
            \<longrightarrow> subscript m ''content'' = Inr (generated_dag (fst (load_conversation sid resp s))))"
proof -
  from rescan_list [OF assms(2)]
  have none: "\<not> list_ex holds_script ms \<longrightarrow> rescan (JArr ms) = Inr JNull"
    and some: "\<forall>older m newer.
            ms = older @ m # newer \<and> holds_script m \<and> \<not> list_ex holds_script newer
            \<longrightarrow> subscript m ''content'' = rescan (JArr ms)"
    by blast+
  have g: "generated_dag (fst (load_conversation sid resp s)) =
             (case rescan (JArr ms) of Inl e \<Rightarrow> JNull | Inr v \<Rightarrow> v)"
    by (simp add: load_conversation_installs [OF assms(1)])
  show ?thesis
  proof (intro conjI impI allI)
    assume "\<not> list_ex holds_script ms"
    with none g show "generated_dag (fst (load_conversation sid resp s)) = JNull" by simp
  next
    fix older m newer
    assume h: "ms = older @ m # newer \<and> holds_script m \<and> \<not> list_ex holds_script newer"
    with some have r: "subscript m ''content'' = rescan (JArr ms)" by blast
    from h obtain c where "subscript m ''content'' = Inr c"
      by (auto simp: holds_script_iff)
    with r have "rescan (JArr ms) = Inr c" by simp
    with r show "subscript m ''content'' = Inr (generated_dag (fst (load_conversation sid resp s)))"
      by (simp add: g)
  qed
qed

text \<open>The stored conversation: the artifact is the script, though two user messages follow
  it. A conversation without a script, loaded over a session that has an artifact: none is
  left.\<close>

theorem load_conversation_extracts_latest_script_witness:
  "response_messages stored_response = Some (JArr stored_log) \<and>
   list_all is_message stored_log \<and>
   generated_dag (fst (load_conversation (JStr ''abc123'') stored_response new_session))
     = JStr ''def process(): pass'' \<and>
   response_messages rejected_response = Some (JArr rejected_log) \<and>
   list_all is_message rejected_log \<and>
   generated_dag (fst (load_conversation (JStr ''def456'') rejected_response loaded_session))
     = JNull"
proof -
  have r: "response_messages stored_response = Some (JArr stored_log)"
    by (simp add: stored_response_def response_messages_def)
  have w: "\<forall>m\<in>set stored_log. is_message m"
    by (simp add: stored_log_def new_message_def is_message_def)
  have split: "stored_log =
      [] @ new_message ''system'' (JStr ''def process(): pass'') ''2024-05-01T10:00:00'' #
        [new_message ''user'' (JStr ''thanks'') ''2024-05-01T10:01:00'',
         new_message ''user'' (JStr ''add a retry'') ''2024-05-01T10:02:00'']"
    by (simp add: stored_log_def)
  from load_conversation_extracts_latest_script [OF r w, of "JStr ''abc123''" new_session]
    split stored_log_script stored_log_newer
  have "subscript (new_message ''system'' (JStr ''def process(): pass'') ''2024-05-01T10:00:00'')
          ''content''
     = Inr (generated_dag (fst (load_conversation (JStr ''abc123'') stored_response new_session)))"
    by blast
  then have found: "generated_dag (fst (load_conversation (JStr ''abc123'') stored_response
      new_session)) = JStr ''def process(): pass''"
    by (simp add: new_message_def)
  have r': "response_messages rejected_response = Some (JArr rejected_log)"
    by (simp add: rejected_response_def response_messages_def)
  have w': "\<forall>m\<in>set rejected_log. is_message m"
    by (simp add: rejected_log_def new_message_def is_message_def)
  have n: "\<not> list_ex holds_script rejected_log"
    by (simp add: rejected_log_def new_message_def holds_script_def sublist_Cons_right)
  from load_conversation_extracts_latest_script [OF r' w', of "JStr ''def456''" loaded_session] n
  have none: "generated_dag (fst (load_conversation (JStr ''def456'') rejected_response
      loaded_session)) = JNull"
    by blast
  from r w found r' w' none show ?thesis by (simp add: list_all_iff)
qed

text \<open>
  Claim C4. After a successful generation the artifact should be what the scan of the updated
  log returns. Line 176 assigns the returned script without the \<^verbatim>\<open>"def "\<close> test that
  lines 59 and 76 apply. For the script \<^verbatim>\<open>import airflow\<close> the turn appends it as the
  content of a system message and leaves it as the artifact, while the scan of that very log
  finds nothing, and a load that delivers that log leaves no artifact.
\<close>

theorem generated_script_without_def_disagrees_with_scan:
  "chat_turn [] etl_request ''2024-05-01T10:00:00'' ''2024-05-01T10:00:01'' accepting_response
       plain_script_response new_session =
     \<lparr>after = new_session\<lparr>generated_dag := JStr ''import airflow'',
                              messages := JArr plain_script_log\<rparr>,
      calls = [Validate_input etl_request, Generate_dag etl_request (session_id new_session)],
      shown = [St_write etl_request, St_success ''Input validated successfully!'',
               St_code (JStr ''import airflow'')],
      raised = None\<rparr> \<and>
   rescan (JArr plain_script_log) = Inr JNull \<and>
   generated_dag (fst (load_conversation (session_id new_session)
       (Response 200 (Some (JObj [(''success'', JBool True),
                                  (''messages'', JArr plain_script_log)])))
       new_session)) = JNull"
  by (simp add: chat_turn_def system_reply_def generate_phase_def append_message_def
      accepting_response_def plain_script_response_def new_session_def init_session_def
      fresh_state_def etl_request_def new_message_def rescan_def plain_script_log_def
      load_conversation_def load_body_def sublist_Cons_right)

text \<open>
  Claim C6. When validation answers with a falsy \<^verbatim>\<open>valid\<close>, the turn appends the user
  message and one dict whose \<^verbatim>\<open>message_type\<close> is \<^verbatim>\<open>"system"\<close>. Its
  \<^verbatim>\<open>content\<close> is the feedback text when the response carries
  a non-empty one (\<open>fb = Some t\<close>), and \<^verbatim>\<open>"Invalid input. Please try again."\<close> when the
  feedback is empty, \<^verbatim>\<open>null\<close> or missing. The artifact is unchanged and the validation
  request is the only request made.
\<close>

theorem rejected_turn_feedback:
  assumes "user_input \<noteq> []" and "messages s = JArr ms"
    and "dict_get data ''valid'' = Inr v" and "\<not> truthy v"
    and "dict_get data ''feedback'' = Inr (case fb of None \<Rightarrow> JNull | Some t \<Rightarrow> JStr t)"
    and "reply = (case fb of None \<Rightarrow> ''Invalid input. Please try again.''
                  | Some t \<Rightarrow> if t = [] then ''Invalid input. Please try again.'' else t)"
  shows "chat_turn rendered user_input ts_user ts_system (Response 200 (Some data)) gresp s =
           \<lparr>after = s\<lparr>messages := JArr (ms @ [JObj [(''message_type'', JStr ''user''), (''content'', JStr user_input),
                   (''timestamp'', JStr ts_user)],
                                              JObj [(''message_type'', JStr ''system''), (''content'', JStr reply),
                   (''timestamp'', JStr ts_system)]])\<rparr>,
            calls = [Validate_input user_input],
            shown = [St_write user_input, St_error reply],
            raised = None\<rparr> \<and>
         generated_dag (after (chat_turn rendered user_input ts_user ts_system
                                 (Response 200 (Some data)) gresp s)) = generated_dag s"
  using assms
  by (cases fb)
    (simp_all add: chat_turn_def system_reply_def append_message_list format_value_def Let_def
      new_message_def)

text \<open>A rejection with feedback, with empty feedback and without feedback.\<close>

theorem rejected_turn_feedback_witness:
  "chat_turn [] ''asdf'' ''2024-05-01T10:00:00'' ''2024-05-01T10:00:01'' rejecting_response
       script_response new_session =
     \<lparr>after = new_session\<lparr>messages := JArr
        [JObj [(''message_type'', JStr ''user''), (''content'', JStr ''asdf''),
                   (''timestamp'', JStr ''2024-05-01T10:00:00'')],
         JObj [(''message_type'', JStr ''system''), (''content'', JStr ''Please describe at least one task.''),
                   (''timestamp'', JStr ''2024-05-01T10:00:01'')]]\<rparr>,
      calls = [Validate_input ''asdf''],
      shown = [St_write ''asdf'', St_error ''Please describe at least one task.''],
      raised = None\<rparr> \<and>
   chat_turn [] ''asdf'' ''2024-05-01T10:00:00'' ''2024-05-01T10:00:01''
       (Response 200 (Some (JObj [(''valid'', JBool False), (''feedback'', JStr [])])))
       script_response new_session =
     \<lparr>after = new_session\<lparr>messages := JArr
        [JObj [(''message_type'', JStr ''user''), (''content'', JStr ''asdf''),
                   (''timestamp'', JStr ''2024-05-01T10:00:00'')],
         JObj [(''message_type'', JStr ''system''), (''content'', JStr ''Invalid input. Please try again.''),
                   (''timestamp'', JStr ''2024-05-01T10:00:01'')]]\<rparr>,
      calls = [Validate_input ''asdf''],
      shown = [St_write ''asdf'', St_error ''Invalid input. Please try again.''],
      raised = None\<rparr> \<and>
   chat_turn [] ''asdf'' ''2024-05-01T10:00:00'' ''2024-05-01T10:00:01''
       (Response 200 (Some (JObj [(''valid'', JBool False)])))
       script_response new_session =
     \<lparr>after = new_session\<lparr>messages := JArr
        [JObj [(''message_type'', JStr ''user''), (''content'', JStr ''asdf''),
                   (''timestamp'', JStr ''2024-05-01T10:00:00'')],
         JObj [(''message_type'', JStr ''system''), (''content'', JStr ''Invalid input. Please try again.''),
                   (''timestamp'', JStr ''2024-05-01T10:00:01'')]]\<rparr>,
      calls = [Validate_input ''asdf''],
      shown = [St_write ''asdf'', St_error ''Invalid input. Please try again.''],
      raised = None\<rparr>"
proof -
  have i: "''asdf'' \<noteq> []" by simp
  have m: "messages new_session = JArr []"
    by (simp add: new_session_def init_session_def fresh_state_def)
  have f: "\<not> truthy (JBool False)" by simp
  have 1: "chat_turn [] ''asdf'' ''2024-05-01T10:00:00'' ''2024-05-01T10:00:01'' rejecting_response
       script_response new_session =
     \<lparr>after = new_session\<lparr>messages := JArr
        [JObj [(''message_type'', JStr ''user''), (''content'', JStr ''asdf''),
                   (''timestamp'', JStr ''2024-05-01T10:00:00'')],
         JObj [(''message_type'', JStr ''system''), (''content'', JStr ''Please describe at least one task.''),
                   (''timestamp'', JStr ''2024-05-01T10:00:01'')]]\<rparr>,
      calls = [Validate_input ''asdf''],
      shown = [St_write ''asdf'', St_error ''Please describe at least one task.''],
      raised = None\<rparr>"
    using rejected_turn_feedback [OF i m _ f, where fb = "Some ''Please describe at least one task.''"
        and data = "JObj [(''valid'', JBool False),
                               (''feedback'', JStr ''Please describe at least one task.'')]"
        and reply = "''Please describe at least one task.''"]
    by (simp add: rejecting_response_def)
  have 2: "chat_turn [] ''asdf'' ''2024-05-01T10:00:00'' ''2024-05-01T10:00:01''
       (Response 200 (Some (JObj [(''valid'', JBool False), (''feedback'', JStr [])])))
       script_response new_session =
     \<lparr>after = new_session\<lparr>messages := JArr
        [JObj [(''message_type'', JStr ''user''), (''content'', JStr ''asdf''),
                   (''timestamp'', JStr ''2024-05-01T10:00:00'')],
         JObj [(''message_type'', JStr ''system''), (''content'', JStr ''Invalid input. Please try again.''),
                   (''timestamp'', JStr ''2024-05-01T10:00:01'')]]\<rparr>,
      calls = [Validate_input ''asdf''],
      shown = [St_write ''asdf'', St_error ''Invalid input. Please try again.''],
      raised = None\<rparr>"
    using rejected_turn_feedback [OF i m _ f, where fb = "Some []"
        and data = "JObj [(''valid'', JBool False), (''feedback'', JStr [])]"
        and reply = "''Invalid input. Please try again.''"]
    by simp
  have 3: "chat_turn [] ''asdf'' ''2024-05-01T10:00:00'' ''2024-05-01T10:00:01''
       (Response 200 (Some (JObj [(''valid'', JBool False)])))
       script_response new_session =
     \<lparr>after = new_session\<lparr>messages := JArr
        [JObj [(''message_type'', JStr ''user''), (''content'', JStr ''asdf''),
                   (''timestamp'', JStr ''2024-05-01T10:00:00'')],
         JObj [(''message_type'', JStr ''system''), (''content'', JStr ''Invalid input. Please try again.''),
                   (''timestamp'', JStr ''2024-05-01T10:00:01'')]]\<rparr>,
      calls = [Validate_input ''asdf''],
      shown = [St_write ''asdf'', St_error ''Invalid input. Please try again.''],
      raised = None\<rparr>"
    using rejected_turn_feedback [OF i m _ f, where fb = None
        and data = "JObj [(''valid'', JBool False)]"
        and reply = "''Invalid input. Please try again.''"]
    by simp
  from 1 2 3 show ?thesis by blast
qed

text \<open>
  Claim C7. Every operation keeps the invariant that an artifact which is present is the
  content of a system message of the log: \<^verbatim>\<open>init_session\<close> (it establishes the invariant
  on a fresh state and changes nothing on an established one), the clear, the fetch of the
  list, the load of a conversation and a turn, whatever the backend answers.
\<close>

theorem artifact_in_log_preserved:
  assumes "artifact_in_log s"
  shows "artifact_in_log (init_session uuid fresh_state) \<and>
         init_session uuid (established s) = s \<and>
         artifact_in_log (fst (clear_current_chat uuid s)) \<and>
         artifact_in_log (fst (fetch_all_conversations resp s)) \<and>
         artifact_in_log (fst (load_conversation sid resp s)) \<and>
         artifact_in_log (after (chat_turn rendered user_input ts_user ts_system vresp gresp s))"
proof -
  have "artifact_in_log (init_session uuid fresh_state)"
    by (simp add: init_session_def fresh_state_def artifact_in_log_def)
  moreover have "init_session uuid (established s) = s"
    by (simp add: init_session_def established_def)
  moreover have "artifact_in_log (fst (clear_current_chat uuid s))"
    by (simp add: clear_current_chat_def artifact_in_log_def)
  moreover have "artifact_in_log (fst (fetch_all_conversations resp s))"
    using assms by (simp add: artifact_in_log_def fetch_all_keeps_log)
  ultimately show ?thesis
    using load_conversation_inv [OF assms] chat_turn_inv [OF assms] by blast
qed

text \<open>A session with an artifact, through a clear, a failed fetch, a load and a turn.\<close>

theorem artifact_in_log_preserved_witness:
  "artifact_in_log loaded_session \<and> generated_dag loaded_session = JStr ''def process(): pass'' \<and>
   artifact_in_log (fst (clear_current_chat ''9a1c2e3f-0b4d-4c5e-8f6a-7b8c9d0e1f2a'' loaded_session)) \<and>
   artifact_in_log (fst (fetch_all_conversations (Response 500 None) loaded_session)) \<and>
   artifact_in_log (fst (load_conversation (JStr ''xyz789'') null_content_response loaded_session)) \<and>
   artifact_in_log (after (chat_turn [] etl_request ''2024-05-01T10:05:00'' ''2024-05-01T10:05:01''
       accepting_response plain_script_response loaded_session))"
proof -
  have a: "artifact_in_log loaded_session"
    by (simp add: artifact_in_log_def loaded_session_def stored_log_def new_message_def
        is_system_with_def log_entries_def)
  have g: "generated_dag loaded_session = JStr ''def process(): pass''"
    by (simp add: loaded_session_def)
  from artifact_in_log_preserved [OF a, of "''9a1c2e3f-0b4d-4c5e-8f6a-7b8c9d0e1f2a''"
      "Response 500 None" "JStr ''xyz789''" "[]" etl_request "''2024-05-01T10:05:00''"
      "''2024-05-01T10:05:01''" accepting_response plain_script_response]
    artifact_in_log_preserved [OF a, where sid = "JStr ''xyz789''"
      and resp = null_content_response] a g
  show ?thesis by blast
qed

text \<open>
  Claim C8. A load that fails should leave the session state as it was. When the scan raises,
  it does not: for a response whose system message has \<^verbatim>\<open>null\<close> as its content, lines
  54 to 57 have installed the delivered messages, the id and an empty artifact before
  \<^verbatim>\<open>"def " in None\<close> raises on line 59, and the handler on lines 66 and 67 shows the
  error without restoring anything. The session that held the stored conversation, its id
  and its artifact has lost all three.
\<close>

theorem load_scan_exception_overwrites_state:
  "load_conversation (JStr ''xyz789'') null_content_response loaded_session =
     (\<lparr> session_id = JStr ''xyz789'',
        messages = JArr [JObj [(''message_type'', JStr ''system''), (''content'', JNull),
                               (''timestamp'', JStr ''2024-05-01T10:00:00'')]],
        history = JArr [], active_session = JStr ''xyz789'', generated_dag = JNull \<rparr>,
      [St_error_exn ''Error loading conversation: '' TypeError]) \<and>
   loaded_session =
     \<lparr> session_id = JStr ''abc123'', messages = JArr stored_log, history = JArr [],
       active_session = JStr ''abc123'', generated_dag = JStr ''def process(): pass'' \<rparr> \<and>
   fst (load_conversation (JStr ''xyz789'') null_content_response loaded_session) \<noteq> loaded_session"
  by (simp add: load_conversation_def load_body_def null_content_response_def loaded_session_def
      new_message_def)

text \<open>
  Claim C9. Loading a conversation twice with the same id and the same response gives the
  state, and the notices, of loading it once.
\<close>

theorem load_conversation_idempotent:
  "load_conversation sid resp (fst (load_conversation sid resp s)) = load_conversation sid resp s"
proof (cases "response_messages resp")
  case None
  then show ?thesis using load_conversation_keeps [OF None, of sid s] by simp
next
  case (Some msgs)
  show ?thesis
    by (simp add: load_conversation_installs [OF Some])
qed

text \<open>The stored conversation, loaded twice into a new session.\<close>

theorem load_conversation_idempotent_witness:
  "load_conversation (JStr ''abc123'') stored_response
     (fst (load_conversation (JStr ''abc123'') stored_response new_session)) =
   (loaded_session, []) \<and>
   load_conversation (JStr ''abc123'') stored_response new_session = (loaded_session, [])"
proof -
  have "load_conversation (JStr ''abc123'') stored_response new_session = (loaded_session, [])"
    by (simp add: load_conversation_def load_body_def stored_response_def stored_log_def
        new_session_def init_session_def fresh_state_def loaded_session_def new_message_def
        sublist_Cons_right)
  with load_conversation_idempotent [of "JStr ''abc123''" stored_response new_session]
  show ?thesis by simp
qed

text \<open>
  Claim C10. When validation accepts and the generation response has status 200 and a dict
  without \<^verbatim>\<open>dag_script\<close> as its body, a \<^verbatim>\<open>KeyError\<close> leaves \<^verbatim>\<open>main\<close>: the user
  message is the only message appended, and the artifact is unchanged.
\<close>

theorem missing_dag_script_aborts_turn:
  assumes "user_input \<noteq> []" and "messages s = JArr ms"
    and "dict_get data ''valid'' = Inr v" and "truthy v"
    and "map_of reply_fields ''dag_script'' = None"
  shows "chat_turn rendered user_input ts_user ts_system (Response 200 (Some data))
             (Response 200 (Some (JObj reply_fields))) s =
           \<lparr>after = s\<lparr>messages := JArr (ms @ [new_message ''user'' (JStr user_input) ts_user])\<rparr>,
            calls = [Validate_input user_input, Generate_dag user_input (session_id s)],
            shown = [St_write user_input, St_success ''Input validated successfully!''],
            raised = Some (KeyError ''dag_script'')\<rparr> \<and>
         generated_dag (after (chat_turn rendered user_input ts_user ts_system
             (Response 200 (Some data)) (Response 200 (Some (JObj reply_fields))) s)) = generated_dag s"
  using assms
  by (simp add: chat_turn_def system_reply_def generate_phase_def append_message_list)

text \<open>A generation response that carries an error text instead of a script.\<close>

theorem missing_dag_script_aborts_turn_witness:
  "chat_turn [] etl_request ''2024-05-01T10:00:00'' ''2024-05-01T10:00:01'' accepting_response
       scriptless_response loaded_session =
     \<lparr>after = loaded_session\<lparr>messages := JArr (stored_log @
               [new_message ''user'' (JStr etl_request) ''2024-05-01T10:00:00''])\<rparr>,
      calls = [Validate_input etl_request, Generate_dag etl_request (JStr ''abc123'')],
      shown = [St_write etl_request, St_success ''Input validated successfully!''],
      raised = Some (KeyError ''dag_script'')\<rparr>"
proof -
  have i: "etl_request \<noteq> []" by (simp add: etl_request_def)
  have m: "messages loaded_session = JArr stored_log" by (simp add: loaded_session_def)
  have v: "dict_get (JObj [(''valid'', JBool True)]) ''valid'' = Inr (JBool True)" by simp
  have t: "truthy (JBool True)" by simp
  have d: "map_of [(''error'', JStr ''generation failed'')] ''dag_script'' = None" by simp
  have sid: "session_id loaded_session = JStr ''abc123''" by (simp add: loaded_session_def)
  from missing_dag_script_aborts_turn [OF i m v t d, of "[]" "''2024-05-01T10:00:00''" "''2024-05-01T10:00:01''"]
  show ?thesis
    by (simp add: accepting_response_def scriptless_response_def sid)
qed

end
